theory Spec2Isabelle
  imports Main
begin

section \<open>The blog schema of modules/blog/models.py\<close>

text \<open>
  The module declares five Django models: Category and Comment (trees, through
  MPTTModel), Article, Rating and ViewCount. The embedding keeps one record per model
  with the declared columns, a database as a record of tables (row lists in insertion
  order), and every write as a function from the database to a result and the database
  after it. A rejected write returns the error and the database it leaves behind: the
  one it was given, except for Category.delete, which renumbers its tree first.

  Users live in another application: a reference to a user is a bare key. Creating a
  rating, where the user may be absent, takes the keys of the user table as a parameter;
  the saves of articles and comments are modelled for authors that exist. Timestamps
  are integers (a clock reading handed to each write). The tag relation of Article is a
  many-to-many table of its own that no operation below reads.
\<close>

subsection \<open>Rows and tables\<close>

datatype error = IntegrityError | ProtectedError | DoesNotExist | ValueError

text \<open>
  Category is an MPTTModel: besides the declared columns it carries the nested-set
  columns the tree library adds (tree_id, lft, rght, level).
\<close>

record category =
  cat_id :: nat
  cat_title :: string
  cat_slug :: string
  cat_description :: string
  cat_parent :: "nat option"
  cat_tree_id :: nat
  cat_lft :: nat
  cat_rght :: nat
  cat_level :: nat

text \<open>An Article instance has no primary key until its first save.\<close>

record article =
  art_id :: "nat option"
  art_title :: string
  art_slug :: string
  art_short_description :: string
  art_full_description :: string
  art_thumbnail :: string
  art_status :: string
  art_time_create :: int
  art_time_update :: int
  art_author :: nat
  art_updater :: "nat option"
  art_fixed :: bool
  art_category :: nat

text \<open>
  Comment is an MPTTModel too, with the same four nested-set columns.
\<close>

record comment =
  com_id :: nat
  com_article :: nat
  com_author :: nat
  com_content :: string
  com_time_create :: int
  com_time_update :: int
  com_status :: string
  com_parent :: "nat option"
  com_tree_id :: nat
  com_lft :: nat
  com_rght :: nat
  com_level :: nat

text \<open>
  The ip_address of a stored row is the text the column holds; the ip_address of an
  instance is the text it was given.
\<close>

record rating =
  rat_id :: nat
  rat_article :: nat
  rat_user :: "nat option"
  rat_value :: int
  rat_time_create :: int
  rat_ip_address :: string

record viewcount =
  view_id :: nat
  view_article :: nat
  view_ip_address :: string
  view_viewed_on :: int

record db =
  categories :: "category list"
  articles :: "article list"
  comments :: "comment list"
  ratings :: "rating list"
  views :: "viewcount list"

definition empty_db :: db where
  "empty_db = \<lparr>categories = [], articles = [], comments = [], ratings = [], views = []\<rparr>"

text \<open>The key the database gives a new row: one more than the largest key in use.\<close>

definition next_id :: "nat list \<Rightarrow> nat" where
  "next_id ks = Suc (foldr max ks 0)"

subsection \<open>Nested option classes and orderings\<close>

text \<open>
  An ordering is written in the source as a list of column names, a leading minus sign
  for descending. Each model class is kept as the list of its nested option classes,
  by name, with the ordering attributes each one sets.
\<close>

datatype order_term = Asc string | Desc string

type_synonym class_decl = "(string \<times> (string \<times> order_term list) list) list"

definition Category_class :: class_decl where
  "Category_class =
     [(''MPTTMeta'', [(''order_insertion_by'', [Asc ''title''])]),
      (''Meta'', [])]"

definition Article_class :: class_decl where
  "Article_class =
     [(''Meta'', [(''ordering'', [Desc ''time_create'', Desc ''fixed''])])]"

definition Comment_class :: class_decl where
  "Comment_class =
     [(''MTTMeta'', [(''order_insertion_by'', [Desc ''time_create''])]),
      (''Meta'', [(''ordering'', [Desc ''time_create''])])]"

definition Rating_class :: class_decl where
  "Rating_class =
     [(''Meta'', [(''ordering'', [Desc ''time_create''])])]"

definition ViewCount_class :: class_decl where
  "ViewCount_class =
     [(''Meta'', [(''ordering'', [Desc ''viewed_on''])])]"

text \<open>An attribute of a nested class; the empty ordering when either is absent.\<close>

definition class_option :: "class_decl \<Rightarrow> string \<Rightarrow> string \<Rightarrow> order_term list" where
  "class_option cls inner attr =
     (case map_of cls inner of
        None \<Rightarrow> []
      | Some attrs \<Rightarrow> (case map_of attrs attr of None \<Rightarrow> [] | Some ts \<Rightarrow> ts))"

text \<open>Django reads the default ordering from Meta, the tree library its options from MPTTMeta.\<close>

definition meta_ordering :: "class_decl \<Rightarrow> order_term list" where
  "meta_ordering cls = class_option cls ''Meta'' ''ordering''"

definition mptt_order_insertion_by :: "class_decl \<Rightarrow> order_term list" where
  "mptt_order_insertion_by cls = class_option cls ''MPTTMeta'' ''order_insertion_by''"

text \<open>
  \<open>precedes col ts a b\<close>: row \<open>a\<close> may stand before row \<open>b\<close> under the ordering
  \<open>ts\<close>, compared column by column, the first column that differs deciding.
  \<open>strictly_before\<close> is the same comparison without the ties.
\<close>

fun precedes :: "(string \<Rightarrow> 'a \<Rightarrow> int) \<Rightarrow> order_term list \<Rightarrow> 'a \<Rightarrow> 'a \<Rightarrow> bool" where
  "precedes col [] a b = True"
| "precedes col (Asc f # ts) a b =
     (col f a < col f b \<or> (col f a = col f b \<and> precedes col ts a b))"
| "precedes col (Desc f # ts) a b =
     (col f b < col f a \<or> (col f a = col f b \<and> precedes col ts a b))"

fun strictly_before :: "(string \<Rightarrow> 'a \<Rightarrow> int) \<Rightarrow> order_term list \<Rightarrow> 'a \<Rightarrow> 'a \<Rightarrow> bool" where
  "strictly_before col [] a b = False"
| "strictly_before col (Asc f # ts) a b =
     (col f a < col f b \<or> (col f a = col f b \<and> strictly_before col ts a b))"
| "strictly_before col (Desc f # ts) a b =
     (col f b < col f a \<or> (col f a = col f b \<and> strictly_before col ts a b))"

text \<open>ORDER BY, as a stable insertion sort: rows that tie keep their table order.\<close>

fun insert_ordered :: "('a \<Rightarrow> 'a \<Rightarrow> bool) \<Rightarrow> 'a \<Rightarrow> 'a list \<Rightarrow> 'a list" where
  "insert_ordered le x [] = [x]"
| "insert_ordered le x (y # ys) =
     (if le x y then x # y # ys else y # insert_ordered le x ys)"

definition order_by :: "('a \<Rightarrow> 'a \<Rightarrow> bool) \<Rightarrow> 'a list \<Rightarrow> 'a list" where
  "order_by le xs = foldr (insert_ordered le) xs []"

text \<open>\<open>appears_before xs a b\<close>: \<open>b\<close> stands after the first occurrence of \<open>a\<close>.\<close>

fun appears_before :: "'a list \<Rightarrow> 'a \<Rightarrow> 'a \<Rightarrow> bool" where
  "appears_before [] a b = False"
| "appears_before (x # xs) a b = (if x = a then b \<in> set xs else appears_before xs a b)"

text \<open>The columns an ordering can name, as integers (False before True).\<close>

definition article_col :: "string \<Rightarrow> article \<Rightarrow> int" where
  "article_col f a =
     (if f = ''time_create'' then art_time_create a
      else if f = ''time_update'' then art_time_update a
      else if f = ''fixed'' then (if art_fixed a then 1 else 0)
      else 0)"

definition comment_col :: "string \<Rightarrow> comment \<Rightarrow> int" where
  "comment_col f c =
     (if f = ''time_create'' then com_time_create c
      else if f = ''time_update'' then com_time_update c
      else if f = ''tree_id'' then int (com_tree_id c)
      else if f = ''lft'' then int (com_lft c)
      else 0)"

definition rating_col :: "string \<Rightarrow> rating \<Rightarrow> int" where
  "rating_col f r =
     (if f = ''time_create'' then rat_time_create r
      else if f = ''value'' then rat_value r
      else 0)"

subsection \<open>Article: the manager, save and the rating sum\<close>

text \<open>
  The default query set of a plain manager: every row, in the Meta ordering.
  select_related and prefetch_related change how rows are fetched, not which rows.
\<close>

definition get_queryset :: "db \<Rightarrow> article list" where
  "get_queryset d = order_by (precedes article_col (meta_ordering Article_class)) (articles d)"

definition ArticleManager_all :: "db \<Rightarrow> article list" where
  "ArticleManager_all d = filter (\<lambda>a. art_status a = ''published'') (get_queryset d)"

definition ArticleManager_detail :: "db \<Rightarrow> article list" where
  "ArticleManager_detail d = filter (\<lambda>a. art_status a = ''published'') (get_queryset d)"

text \<open>
  \<open>unique_slugify\<close> is imported from modules/services/utils.py, which is not among
  the sources: \<open>Article_save\<close> takes it as the parameter \<open>usl\<close>, called with the
  instance, its title and the database.

  Model.save inserts when the instance has no key or its key is not in the table, and
  updates the row with that key otherwise. time_create is auto_now_add (set to the clock
  on insert), time_update is auto_now (set to the clock on every save). The column slug
  is unique and category is a foreign key to Category: a write that breaks either is
  rejected with IntegrityError.
\<close>

fun article_keys :: "article list \<Rightarrow> nat list" where
  "article_keys [] = []"
| "article_keys (r # rs) = (case art_id r of None \<Rightarrow> article_keys rs | Some k \<Rightarrow> k # article_keys rs)"

definition Model_save :: "int \<Rightarrow> article \<Rightarrow> db \<Rightarrow> (error + article) \<times> db" where
  "Model_save now a d =
     (let rows = articles d;
          is_update = (case art_id a of None \<Rightarrow> False | Some k \<Rightarrow> Some k \<in> art_id ` set rows);
          others = (if is_update then filter (\<lambda>r. art_id r \<noteq> art_id a) rows else rows)
      in if art_slug a \<in> art_slug ` set others then (Inl IntegrityError, d)
         else if art_category a \<notin> cat_id ` set (categories d) then (Inl IntegrityError, d)
         else if is_update then
           (let a' = a\<lparr>art_time_update := now\<rparr>
            in (Inr a', d\<lparr>articles := map (\<lambda>r. if art_id r = art_id a then a' else r) rows\<rparr>))
         else
           (let k = (case art_id a of None \<Rightarrow> next_id (article_keys rows)
                                    | Some k \<Rightarrow> k);
                a' = a\<lparr>art_id := Some k, art_time_create := now, art_time_update := now\<rparr>
            in (Inr a', d\<lparr>articles := rows @ [a']\<rparr>)))"

definition Article_save ::
  "(article \<Rightarrow> string \<Rightarrow> db \<Rightarrow> string) \<Rightarrow> int \<Rightarrow> article \<Rightarrow> db \<Rightarrow> (error + article) \<times> db" where
  "Article_save usl now a d =
     (let a1 = (if art_slug a = [] then a\<lparr>art_slug := usl a (art_title a) d\<rparr> else a)
      in Model_save now a1 d)"


text \<open>
  The constructor: a keyword that is left out takes the default of its field
  (status 'published', author 1, fixed False, blank slug and thumbnail, no updater).
  The timestamps of a new instance are unset; they hold 0 until the first save.
\<close>

record article_kwargs =
  kw_title :: string
  kw_slug :: "string option"
  kw_short_description :: string
  kw_full_description :: string
  kw_thumbnail :: "string option"
  kw_status :: "string option"
  kw_author :: "nat option"
  kw_updater :: "nat option"
  kw_fixed :: "bool option"
  kw_category :: nat

definition Article_init :: "article_kwargs \<Rightarrow> article" where
  "Article_init kw =
     \<lparr>art_id = None,
      art_title = kw_title kw,
      art_slug = (case kw_slug kw of None \<Rightarrow> [] | Some s \<Rightarrow> s),
      art_short_description = kw_short_description kw,
      art_full_description = kw_full_description kw,
      art_thumbnail = (case kw_thumbnail kw of None \<Rightarrow> [] | Some s \<Rightarrow> s),
      art_status = (case kw_status kw of None \<Rightarrow> ''published'' | Some s \<Rightarrow> s),
      art_time_create = 0,
      art_time_update = 0,
      art_author = (case kw_author kw of None \<Rightarrow> 1 | Some u \<Rightarrow> u),
      art_updater = kw_updater kw,
      art_fixed = (case kw_fixed kw of None \<Rightarrow> False | Some b \<Rightarrow> b),
      art_category = kw_category kw\<rparr>"

text \<open>
  The query behind \<open>self.ratings.all()\<close>: the ratings of one article, in the Meta
  ordering of Rating.
\<close>

definition ratings_all :: "nat \<Rightarrow> db \<Rightarrow> rating list" where
  "ratings_all k d =
     order_by (precedes rating_col (meta_ordering Rating_class))
       (filter (\<lambda>r. rat_article r = k) (ratings d))"

text \<open>
  \<open>prefetch_related('ratings')\<close>, which both \<open>all()\<close> and \<open>detail()\<close> ask for: when
  the query set is evaluated, the ratings of each article it returns are fetched with it
  and kept on the instance. An instance is an article together with that cache: None
  for an instance built or fetched without the prefetch.
\<close>

type_synonym article_instance = "article \<times> rating list option"

definition prefetch_ratings :: "db \<Rightarrow> article \<Rightarrow> article_instance" where
  "prefetch_ratings d a =
     (a, case art_id a of None \<Rightarrow> None | Some k \<Rightarrow> Some (ratings_all k d))"

definition all_instances :: "db \<Rightarrow> article_instance list" where
  "all_instances d = map (prefetch_ratings d) (ArticleManager_all d)"

definition detail_instances :: "db \<Rightarrow> article_instance list" where
  "detail_instances d = map (prefetch_ratings d) (ArticleManager_detail d)"

text \<open>
  \<open>get_sum_rating\<close> sums the values of \<open>self.ratings.all()\<close>, from 0 and from left
  to right. The related manager of an instance without a key raises ValueError; on an
  instance with prefetched ratings it returns them, without a query; otherwise it runs
  the query on the database of the call.
\<close>

definition get_sum_rating :: "article_instance \<Rightarrow> db \<Rightarrow> error + int" where
  "get_sum_rating inst d =
     (case art_id (fst inst) of
        None \<Rightarrow> Inl ValueError
      | Some k \<Rightarrow>
          Inr (foldl (+) 0
                 (map rat_value (case snd inst of Some rs \<Rightarrow> rs | None \<Rightarrow> ratings_all k d))))"

subsection \<open>Rating\<close>

text \<open>
  ip_address is a GenericIPAddressField. What the column stores is the prepared value
  of the text given: a text with a colon in it is passed to the framework's
  clean_ipv6_address, which returns the canonical spelling of an IPv6 address and
  raises ValidationError for anything else, and then the text is stored as given; a text
  without a colon is stored as given. clean_ipv6_address belongs to the framework:
  \<open>clean\<close> stands for it, None for ValidationError.
\<close>

definition get_prep_value :: "(string \<Rightarrow> string option) \<Rightarrow> string \<Rightarrow> string" where
  "get_prep_value clean v =
     (if v \<noteq> [] \<and> CHR '':'' \<in> set v
      then (case clean v of Some c \<Rightarrow> c | None \<Rightarrow> v)
      else v)"

text \<open>
  Creating a rating: article is a foreign key to Article, user a nullable foreign key to
  the user table (whose keys are \<open>users\<close>), and (article, ip_address) is unique
  together, on the values the columns store. time_create is auto_now_add. The instance
  returned keeps the address it was given; the row stored has the prepared one.
\<close>

definition Rating_create ::
  "(string \<Rightarrow> string option) \<Rightarrow> nat list \<Rightarrow> int \<Rightarrow> rating \<Rightarrow> db \<Rightarrow> (error + rating) \<times> db" where
  "Rating_create clean users now r d =
     (let ip = get_prep_value clean (rat_ip_address r)
      in if Some (rat_article r) \<notin> art_id ` set (articles d) then (Inl IntegrityError, d)
         else if (case rat_user r of None \<Rightarrow> False | Some u \<Rightarrow> u \<notin> set users)
           then (Inl IntegrityError, d)
         else if (rat_article r, ip) \<in> (\<lambda>x. (rat_article x, rat_ip_address x)) ` set (ratings d)
           then (Inl IntegrityError, d)
         else
           (let r' = r\<lparr>rat_id := next_id (map rat_id (ratings d)), rat_time_create := now\<rparr>
            in (Inr r', d\<lparr>ratings := ratings d @ [r'\<lparr>rat_ip_address := ip\<rparr>]\<rparr>)))"

subsection \<open>Deletion: cascade and protect\<close>








subsection \<open>Comment: construction, tree insertion and the tree manager\<close>

record comment_kwargs =
  ckw_article :: nat
  ckw_author :: nat
  ckw_content :: string
  ckw_status :: "string option"
  ckw_parent :: "nat option"

text \<open>The constructor: status defaults to 'published'; key, timestamps and tree columns are unset.\<close>

definition Comment_init :: "comment_kwargs \<Rightarrow> comment" where
  "Comment_init kw =
     \<lparr>com_id = 0,
      com_article = ckw_article kw,
      com_author = ckw_author kw,
      com_content = ckw_content kw,
      com_time_create = 0,
      com_time_update = 0,
      com_status = (case ckw_status kw of None \<Rightarrow> ''published'' | Some s \<Rightarrow> s),
      com_parent = ckw_parent kw,
      com_tree_id = 0,
      com_lft = 0,
      com_rght = 0,
      com_level = 0\<rparr>"

text \<open>
  The nested-set bookkeeping of the tree library. Making room for a node of width
  \<open>width\<close> in one tree moves every lft and rght beyond \<open>target\<close> up by \<open>width\<close>;
  making room for a tree moves every tree_id beyond \<open>target\<close> up by one.
\<close>

definition create_space :: "nat \<Rightarrow> int \<Rightarrow> nat \<Rightarrow> comment list \<Rightarrow> comment list" where
  "create_space width target tree cs =
     map (\<lambda>c. if com_tree_id c = tree
               then c\<lparr>com_lft := (if target < int (com_lft c) then com_lft c + width else com_lft c),
                      com_rght := (if target < int (com_rght c) then com_rght c + width else com_rght c)\<rparr>
               else c) cs"

definition create_tree_space :: "int \<Rightarrow> comment list \<Rightarrow> comment list" where
  "create_tree_space target cs =
     map (\<lambda>c. if target < int (com_tree_id c) then c\<lparr>com_tree_id := com_tree_id c + 1\<rparr> else c) cs"

text \<open>
  The sibling a new node is to be placed in front of. It is looked for only when
  order_insertion_by is set (and the parent, if any, has descendants): the first, in
  that ordering and then in tree order, of the siblings that come strictly after the node.
\<close>

definition get_ordered_insertion_target ::
  "order_term list \<Rightarrow> comment \<Rightarrow> comment option \<Rightarrow> comment list \<Rightarrow> comment option" where
  "get_ordered_insertion_target obs node parent cs =
     (if obs \<noteq> [] \<and> (case parent of None \<Rightarrow> True | Some p \<Rightarrow> com_lft p + 1 < com_rght p)
      then
        (case order_by (precedes comment_col
                 (obs @ [case parent of None \<Rightarrow> Asc ''tree_id'' | Some p \<Rightarrow> Asc ''lft'']))
               (filter (\<lambda>s. com_parent s = map_option com_id parent
                             \<and> strictly_before comment_col obs node s) cs) of
           [] \<Rightarrow> None
         | s # _ \<Rightarrow> Some s)
      else None)"

text \<open>
  Placing a node: with no target it starts a new tree; as the last child of \<open>p\<close> it
  takes the place of \<open>p\<close>'s right edge; to the left of a sibling it takes the
  sibling's left edge (the sibling's tree_id, for a root).
\<close>

definition insert_node ::
  "comment \<Rightarrow> comment option \<Rightarrow> comment option \<Rightarrow> comment list \<Rightarrow> comment \<times> comment list" where
  "insert_node node parent right_sibling cs =
     (case right_sibling of
        Some s \<Rightarrow>
          (case com_parent s of
             None \<Rightarrow>
               (node\<lparr>com_tree_id := com_tree_id s, com_lft := 1, com_rght := 2, com_level := 0\<rparr>,
                create_tree_space (int (com_tree_id s) - 1) cs)
           | Some _ \<Rightarrow>
               (node\<lparr>com_tree_id := com_tree_id s, com_lft := com_lft s,
                      com_rght := com_lft s + 1, com_level := com_level s\<rparr>,
                create_space 2 (int (com_lft s) - 1) (com_tree_id s) cs))
      | None \<Rightarrow>
          (case parent of
             None \<Rightarrow>
               (node\<lparr>com_tree_id := next_id (map com_tree_id cs), com_lft := 1, com_rght := 2,
                      com_level := 0\<rparr>,
                cs)
           | Some p \<Rightarrow>
               (node\<lparr>com_tree_id := com_tree_id p, com_lft := com_rght p,
                      com_rght := com_rght p + 1, com_level := com_level p + 1\<rparr>,
                create_space 2 (int (com_rght p) - 1) (com_tree_id p) cs)))"

text \<open>
  Saving a new comment. The tree library first fetches the parent, when one is given
  (DoesNotExist when it is not stored), reads its options from the nested class named
  MPTTMeta and places the node; the row is then inserted with both timestamps set to the
  clock, and the insert is rejected when the article is not stored.
\<close>

definition Comment_create :: "int \<Rightarrow> comment \<Rightarrow> db \<Rightarrow> (error + comment) \<times> db" where
  "Comment_create now c d =
     (let cs = comments d;
          parent = (case com_parent c of None \<Rightarrow> None
                    | Some p \<Rightarrow> find (\<lambda>r. com_id r = p) cs)
      in if com_parent c \<noteq> None \<and> parent = None then (Inl DoesNotExist, d)
         else if Some (com_article c) \<notin> art_id ` set (articles d) then (Inl IntegrityError, d)
         else
           (let target = get_ordered_insertion_target
                           (mptt_order_insertion_by Comment_class) c parent cs;
                (node, cs') = insert_node c parent target cs;
                c' = node\<lparr>com_id := next_id (map com_id cs),
                         com_time_create := now, com_time_update := now\<rparr>
            in (Inr c', d\<lparr>comments := cs' @ [c']\<rparr>)))"

text \<open>
  The default manager of an MPTTModel is the tree manager: its query set is in tree
  order (tree_id, then lft), which replaces the Meta ordering.
\<close>

definition TreeManager_get_queryset :: "db \<Rightarrow> comment list" where
  "TreeManager_get_queryset d =
     order_by (precedes comment_col [Asc ''tree_id'', Asc ''lft'']) (comments d)"



subsection \<open>Sample rows\<close>

definition sample_category :: category where
  "sample_category =
     \<lparr>cat_id = 1, cat_title = ''Tech'', cat_slug = ''tech'', cat_description = [],
      cat_parent = None, cat_tree_id = 1, cat_lft = 1, cat_rght = 2, cat_level = 0\<rparr>"

definition sample_article :: article where
  "sample_article =
     \<lparr>art_id = None, art_title = ''Hello'', art_slug = ''hello'', art_short_description = [],
      art_full_description = [], art_thumbnail = [], art_status = ''published'',
      art_time_create = 0, art_time_update = 0, art_author = 1, art_updater = None,
      art_fixed = False, art_category = 1\<rparr>"

definition sample_rating :: rating where
  "sample_rating =
     \<lparr>rat_id = 0, rat_article = 1, rat_user = None, rat_value = 1, rat_time_create = 0,
      rat_ip_address = ''1.2.3.4''\<rparr>"


definition sample_comment :: comment where
  "sample_comment =
     Comment_init \<lparr>ckw_article = 1, ckw_author = 1, ckw_content = ''first'',
                   ckw_status = None, ckw_parent = None\<rparr>"


definition sample_kwargs :: article_kwargs where
  "sample_kwargs =
     \<lparr>kw_title = ''Hello'', kw_slug = Some ''hello'', kw_short_description = [],
      kw_full_description = [], kw_thumbnail = None, kw_status = None, kw_author = None,
      kw_updater = None, kw_fixed = None, kw_category = 1\<rparr>"

definition sample_comment_kwargs :: comment_kwargs where
  "sample_comment_kwargs =
     \<lparr>ckw_article = 1, ckw_author = 1, ckw_content = ''first'', ckw_status = None,
      ckw_parent = None\<rparr>"

text \<open>A slug helper that returns the empty slug.\<close>

definition no_slugify :: "article \<Rightarrow> string \<Rightarrow> db \<Rightarrow> string" where
  "no_slugify a t d = []"


text \<open>
  The canonical spelling of the IPv6 addresses of the sample runs, as clean_ipv6_address
  gives it; no other text with a colon occurs there.
\<close>

definition sample_clean_ipv6 :: "string \<Rightarrow> string option" where
  "sample_clean_ipv6 v =
     (if v = ''2001:0DB8:0000:0000:0000:0000:0000:0001'' \<or> v = ''2001:db8::1''
      then Some ''2001:db8::1'' else None)"

section \<open>Properties\<close>

subsection \<open>Orderings, keys and the collector\<close>


lemma set_insert_ordered: "set (insert_ordered le x ys) = insert x (set ys)"
  by (induction ys) auto

lemma set_order_by: "set (order_by le xs) = set xs"
  by (induction xs) (simp_all add: order_by_def set_insert_ordered)

lemma sum_insert_ordered:
  fixes f :: "'a \<Rightarrow> int"
  shows "sum_list (map f (insert_ordered le x ys)) = f x + sum_list (map f ys)"
  by (induction ys) (auto simp: algebra_simps)

lemma sum_order_by:
  fixes f :: "'a \<Rightarrow> int"
  shows "sum_list (map f (order_by le xs)) = sum_list (map f xs)"
  by (induction xs) (simp_all add: order_by_def sum_insert_ordered)

lemma foldl_plus_sum: "foldl (+) (s::int) xs = s + sum_list xs"
  by (induction xs arbitrary: s) (simp_all add: algebra_simps)

lemma next_id_fresh: "next_id ks \<notin> set ks"
proof -
  have "k \<in> set ks \<Longrightarrow> k \<le> foldr max ks 0" for k
    by (induction ks) auto
  then show ?thesis unfolding next_id_def by fastforce
qed






subsection \<open>What Model.save stores\<close>

lemma Model_save_update:
  assumes "art_id a = Some k" and "Some k \<in> art_id ` set (articles d)"
  shows "Model_save now a d =
     (if art_slug a \<in> art_slug ` set (filter (\<lambda>r. art_id r \<noteq> Some k) (articles d))
        then (Inl IntegrityError, d)
      else if art_category a \<notin> cat_id ` set (categories d) then (Inl IntegrityError, d)
      else (Inr (a\<lparr>art_time_update := now\<rparr>),
            d\<lparr>articles := map (\<lambda>r. if art_id r = Some k then a\<lparr>art_time_update := now\<rparr> else r)
                             (articles d)\<rparr>))"
  using assms unfolding Model_save_def Let_def by simp

lemma Model_save_insert:
  assumes "\<not> (\<exists>k. art_id a = Some k \<and> Some k \<in> art_id ` set (articles d))"
  shows "Model_save now a d =
     (if art_slug a \<in> art_slug ` set (articles d) then (Inl IntegrityError, d)
      else if art_category a \<notin> cat_id ` set (categories d) then (Inl IntegrityError, d)
      else (Inr (a\<lparr>art_id := Some (case art_id a of None \<Rightarrow> next_id (article_keys (articles d))
                                          | Some k \<Rightarrow> k),
                   art_time_create := now, art_time_update := now\<rparr>),
            d\<lparr>articles := articles d
                 @ [a\<lparr>art_id := Some (case art_id a of None \<Rightarrow> next_id (article_keys (articles d))
                                          | Some k \<Rightarrow> k),
                      art_time_create := now, art_time_update := now\<rparr>]\<rparr>))"
proof (cases "art_id a")
  case None
  then show ?thesis unfolding Model_save_def Let_def by simp
next
  case (Some k)
  with assms have "Some k \<notin> art_id ` set (articles d)" by simp
  with Some show ?thesis unfolding Model_save_def Let_def by simp
qed


lemma Model_save_cases:
  assumes "Model_save now a d = (Inr a', d')"
  obtains
    (update) k where "art_id a = Some k" and "Some k \<in> art_id ` set (articles d)"
      and "a' = a\<lparr>art_time_update := now\<rparr>"
      and "articles d' = map (\<lambda>r. if art_id r = Some k then a' else r) (articles d)"
      and "art_slug a \<notin> art_slug ` set (filter (\<lambda>r. art_id r \<noteq> Some k) (articles d))"
  | (insert) k where "\<not> (\<exists>k. art_id a = Some k \<and> Some k \<in> art_id ` set (articles d))"
      and "a' = a\<lparr>art_id := Some k, art_time_create := now, art_time_update := now\<rparr>"
      and "articles d' = articles d @ [a']"
      and "art_slug a \<notin> art_slug ` set (articles d)"
proof (cases "\<exists>k. art_id a = Some k \<and> Some k \<in> art_id ` set (articles d)")
  case True
  then obtain k where k: "art_id a = Some k" "Some k \<in> art_id ` set (articles d)" by blast
  let ?c1 = "art_slug a \<in> art_slug ` set (filter (\<lambda>r. art_id r \<noteq> Some k) (articles d))"
  let ?c2 = "art_category a \<notin> cat_id ` set (categories d)"
  from assms have eq: "(if ?c1 then (Inl IntegrityError, d)
      else if ?c2 then (Inl IntegrityError, d)
      else (Inr (a\<lparr>art_time_update := now\<rparr>),
            d\<lparr>articles := map (\<lambda>r. if art_id r = Some k then a\<lparr>art_time_update := now\<rparr> else r)
                             (articles d)\<rparr>)) = (Inr a', d')"
    by (simp only: Model_save_update[OF k])
  have c1: "\<not> ?c1" using eq by (cases ?c1) simp_all
  have c2: "\<not> ?c2" using eq c1 by (cases ?c2) simp_all
  from eq c1 c2 have r: "(Inr (a\<lparr>art_time_update := now\<rparr>),
            d\<lparr>articles := map (\<lambda>r. if art_id r = Some k then a\<lparr>art_time_update := now\<rparr> else r)
                             (articles d)\<rparr>) = (Inr a' :: error + article, d')"
    by (simp only: if_False)
  from r have a': "a' = a\<lparr>art_time_update := now\<rparr>"
    by blast
  from r have d': "d' = d\<lparr>articles := map (\<lambda>r. if art_id r = Some k then a\<lparr>art_time_update := now\<rparr> else r)
                             (articles d)\<rparr>"
    by blast
  have m: "articles d' = map (\<lambda>r. if art_id r = Some k then a' else r) (articles d)"
    by (simp add: d' a')
  show ?thesis by (rule update[OF k(1) k(2) a' m c1])
next
  case False
  let ?k = "case art_id a of None \<Rightarrow> next_id (article_keys (articles d)) | Some k \<Rightarrow> k"
  let ?c1 = "art_slug a \<in> art_slug ` set (articles d)"
  let ?c2 = "art_category a \<notin> cat_id ` set (categories d)"
  let ?a = "a\<lparr>art_id := Some ?k, art_time_create := now, art_time_update := now\<rparr>"
  from assms have eq: "(if ?c1 then (Inl IntegrityError, d)
      else if ?c2 then (Inl IntegrityError, d)
      else (Inr ?a, d\<lparr>articles := articles d @ [?a]\<rparr>)) = (Inr a', d')"
    by (simp only: Model_save_insert[OF False])
  have c1: "\<not> ?c1" using eq by (cases ?c1) simp_all
  have c2: "\<not> ?c2" using eq c1 by (cases ?c2) simp_all
  from eq c1 c2 have r: "(Inr ?a, d\<lparr>articles := articles d @ [?a]\<rparr>) = (Inr a' :: error + article, d')"
    by (simp only: if_False)
  from r have a': "a' = ?a"
    by blast
  from r have d': "d' = d\<lparr>articles := articles d @ [?a]\<rparr>"
    by blast
  have m: "articles d' = articles d @ [a']" by (simp add: d' a')
  show ?thesis by (rule insert[OF False a' m c1])
qed


lemma Model_save_result:
  assumes "Model_save now a d = (Inr a', d')"
  shows "art_slug a' = art_slug a"
    and "a' \<in> set (articles d')"
    and "\<forall>b \<in> set (articles d'). art_slug b = art_slug a' \<longrightarrow> b = a'"
    and "a' = a\<lparr>art_id := art_id a', art_time_create := art_time_create a', art_time_update := now\<rparr>"
    and "(\<exists>k. art_id a = Some k \<and> Some k \<in> art_id ` set (articles d))
           \<longrightarrow> art_id a' = art_id a \<and> art_time_create a' = art_time_create a"
    and "\<not> (\<exists>k. art_id a = Some k \<and> Some k \<in> art_id ` set (articles d))
           \<longrightarrow> art_time_create a' = now"
    and "art_time_update a' = now"
proof -
  show "art_slug a' = art_slug a"
    using assms by (cases rule: Model_save_cases) simp_all
  show "a' \<in> set (articles d')"
    using assms
  proof (cases rule: Model_save_cases)
    case (update k)
    from update(2) obtain r where "r \<in> set (articles d)" "art_id r = Some k" by force
    then show ?thesis unfolding update(4) by force
  next
    case (insert k)
    then show ?thesis by simp
  qed
  show "\<forall>b \<in> set (articles d'). art_slug b = art_slug a' \<longrightarrow> b = a'"
    using assms
  proof (cases rule: Model_save_cases)
    case (update k)
    have sl: "art_slug a' = art_slug a" using update(3) by simp
    show ?thesis
    proof (intro ballI impI)
      fix b assume b: "b \<in> set (articles d')" and e: "art_slug b = art_slug a'"
      show "b = a'"
      proof (rule ccontr)
        assume ne: "b \<noteq> a'"
        from b obtain r where r: "r \<in> set (articles d)" "b = (if art_id r = Some k then a' else r)"
          unfolding update(4) by auto
        with ne have "art_id r \<noteq> Some k" "b = r" by (auto split: if_splits)
        with r(1) have "art_slug b \<in> art_slug ` set (filter (\<lambda>r. art_id r \<noteq> Some k) (articles d))"
          by simp
        with update(5) e sl show False by simp
      qed
    qed
  next
    case (insert k)
    have sl: "art_slug a' = art_slug a" using insert(2) by simp
    show ?thesis
    proof (intro ballI impI)
      fix b assume b: "b \<in> set (articles d')" and e: "art_slug b = art_slug a'"
      show "b = a'"
      proof (rule ccontr)
        assume ne: "b \<noteq> a'"
        with b have "b \<in> set (articles d)" unfolding insert(3) by simp
        then have "art_slug b \<in> art_slug ` set (articles d)" by simp
        with insert(4) e sl show False by simp
      qed
    qed
  qed
  show "a' = a\<lparr>art_id := art_id a', art_time_create := art_time_create a', art_time_update := now\<rparr>"
    using assms by (cases rule: Model_save_cases) simp_all
  show "(\<exists>k. art_id a = Some k \<and> Some k \<in> art_id ` set (articles d))
           \<longrightarrow> art_id a' = art_id a \<and> art_time_create a' = art_time_create a"
    using assms by (cases rule: Model_save_cases) auto
  show "\<not> (\<exists>k. art_id a = Some k \<and> Some k \<in> art_id ` set (articles d))
           \<longrightarrow> art_time_create a' = now"
    using assms by (cases rule: Model_save_cases) auto
  show "art_time_update a' = now"
    using assms by (cases rule: Model_save_cases) simp_all
qed

lemma Article_save_blank:
  "art_slug a = [] \<Longrightarrow>
   Article_save usl now a d = Model_save now (a\<lparr>art_slug := usl a (art_title a) d\<rparr>) d"
  by (simp add: Article_save_def Let_def)

lemma Article_save_set:
  "art_slug a \<noteq> [] \<Longrightarrow> Article_save usl now a d = Model_save now a d"
  by (simp add: Article_save_def Let_def)

lemma Model_save_status:
  assumes "Model_save now a d = (Inr a', d')"
  shows "art_status a' = art_status a"
  using assms by (cases rule: Model_save_cases) simp_all

lemma Article_save_status:
  assumes "Article_save usl now a d = (Inr a', d')"
  shows "art_status a' = art_status a" and "a' \<in> set (articles d')"
proof -
  have "art_status a' = art_status a \<and> a' \<in> set (articles d')"
  proof (cases "art_slug a = []")
    case True
    have ms: "Model_save now (a\<lparr>art_slug := usl a (art_title a) d\<rparr>) d = (Inr a', d')"
      unfolding Article_save_blank[OF True, symmetric] by (rule assms)
    from Model_save_status[OF ms] Model_save_result(2)[OF ms] show ?thesis by simp
  next
    case False
    have ms: "Model_save now a d = (Inr a', d')"
      unfolding Article_save_set[OF False, of usl now d, symmetric] by (rule assms)
    from Model_save_status[OF ms] Model_save_result(2)[OF ms] show ?thesis by simp
  qed
  then show "art_status a' = art_status a" and "a' \<in> set (articles d')" by simp_all
qed

lemma insert_node_status: "com_status (fst (insert_node c p t cs)) = com_status c"
  by (simp add: insert_node_def split: option.splits)

lemma Comment_create_status:
  assumes "Comment_create now c d = (Inr c', d')"
  shows "com_status c' = com_status c" and "c' \<in> set (comments d')"
  using assms
  by (auto simp: Comment_create_def Let_def split_def insert_node_status split: if_splits)

subsection \<open>The default ordering of articles\<close>

text \<open>
  C1. The claim: in the default ordering a pinned article (fixed = True) stands before
  every article that is not pinned, whichever was created later. The Meta ordering is
  \<open>['-time_create', '-fixed']\<close>: the creation time decides first and the pin only
  breaks ties. Here an article pinned at time 1 and an unpinned one created at time 2
  are stored; the default query set returns the unpinned article first.
\<close>

theorem pinned_article_after_newer_unpinned:
  "get_queryset
     (empty_db\<lparr>articles :=
        [sample_article\<lparr>art_id := Some 1, art_slug := ''pinned'', art_fixed := True, art_time_create := 1\<rparr>,
         sample_article\<lparr>art_id := Some 2, art_slug := ''recent'', art_fixed := False, art_time_create := 2\<rparr>]\<rparr>)
   = [sample_article\<lparr>art_id := Some 2, art_slug := ''recent'', art_fixed := False, art_time_create := 2\<rparr>,
      sample_article\<lparr>art_id := Some 1, art_slug := ''pinned'', art_fixed := True, art_time_create := 1\<rparr>]"
  by (simp add: get_queryset_def order_by_def meta_ordering_def class_option_def
        Article_class_def article_col_def sample_article_def empty_db_def)

subsection \<open>The two query policies\<close>

text \<open>
  C2. Both manager policies, \<open>all\<close> and \<open>detail\<close>, return exactly the stored
  articles whose status is 'published'; no article with status 'draft' is in either result.
\<close>

theorem published_only:
  "set (ArticleManager_all d) = {a \<in> set (articles d). art_status a = ''published''}
   \<and> set (ArticleManager_detail d) = {a \<in> set (articles d). art_status a = ''published''}
   \<and> (\<forall>a \<in> set (ArticleManager_all d) \<union> set (ArticleManager_detail d). art_status a \<noteq> ''draft'')"
  by (auto simp: ArticleManager_all_def ArticleManager_detail_def get_queryset_def set_order_by)

theorem published_only_witness:
  "sample_article \<in> set (ArticleManager_all (empty_db\<lparr>articles := [sample_article\<lparr>art_status := ''draft''\<rparr>, sample_article]\<rparr>))
   \<and> sample_article\<lparr>art_status := ''draft''\<rparr> \<notin> set (ArticleManager_all (empty_db\<lparr>articles := [sample_article\<lparr>art_status := ''draft''\<rparr>, sample_article]\<rparr>))
   \<and> sample_article \<in> set (ArticleManager_detail (empty_db\<lparr>articles := [sample_article\<lparr>art_status := ''draft''\<rparr>, sample_article]\<rparr>))
   \<and> art_status sample_article \<noteq> ''draft''"
  using published_only [of "empty_db\<lparr>articles := [sample_article\<lparr>art_status := ''draft''\<rparr>, sample_article]\<rparr>"]
  by (simp add: sample_article_def empty_db_def)

subsection \<open>One rating for each article and address\<close>



subsection \<open>The rating sum\<close>

lemma get_sum_rating_query:
  "art_id a = Some k \<Longrightarrow>
   get_sum_rating (a, None) d
     = Inr (sum_list (map rat_value (filter (\<lambda>r. rat_article r = k) (ratings d))))"
  by (simp add: get_sum_rating_def ratings_all_def foldl_plus_sum sum_order_by)

lemma get_sum_rating_prefetched:
  "get_sum_rating (prefetch_ratings d0 a) d = get_sum_rating (a, None) d0"
  by (simp add: get_sum_rating_def prefetch_ratings_def split: option.splits)

text \<open>
  C5. The claim: \<open>get_sum_rating\<close> returns the sum of the values of the ratings of the
  article, computed from the current ratings at the call. The sum is right; the time is
  not, for the instances that \<open>all()\<close> and \<open>detail()\<close> return: they carry the ratings
  prefetched with them, and \<open>self.ratings.all()\<close> reads those. Here an article with one
  rating of +1 is fetched with \<open>all()\<close>; a rating of -1 is then created for it, so that
  the values stored for the article are +1 and -1; \<open>get_sum_rating\<close> on the fetched
  instance still returns 1.
\<close>

theorem prefetched_sum_is_not_recomputed:
  "all_instances
       (empty_db\<lparr>articles := [sample_article\<lparr>art_id := Some 1\<rparr>],
                 ratings := [sample_rating\<lparr>rat_id := 1\<rparr>]\<rparr>)
     = [(sample_article\<lparr>art_id := Some 1\<rparr>, Some [sample_rating\<lparr>rat_id := 1\<rparr>])]
   \<and> Rating_create sample_clean_ipv6 [] 5
        (sample_rating\<lparr>rat_value := - 1, rat_ip_address := ''5.6.7.8''\<rparr>)
        (empty_db\<lparr>articles := [sample_article\<lparr>art_id := Some 1\<rparr>],
                  ratings := [sample_rating\<lparr>rat_id := 1\<rparr>]\<rparr>)
     = (Inr (sample_rating\<lparr>rat_id := 2, rat_value := - 1, rat_ip_address := ''5.6.7.8'',
                            rat_time_create := 5\<rparr>),
        empty_db\<lparr>articles := [sample_article\<lparr>art_id := Some 1\<rparr>],
                 ratings := [sample_rating\<lparr>rat_id := 1\<rparr>,
                             sample_rating\<lparr>rat_id := 2, rat_value := - 1,
                               rat_ip_address := ''5.6.7.8'', rat_time_create := 5\<rparr>]\<rparr>)
   \<and> map rat_article [sample_rating\<lparr>rat_id := 1\<rparr>,
                       sample_rating\<lparr>rat_id := 2, rat_value := - 1,
                         rat_ip_address := ''5.6.7.8'', rat_time_create := 5\<rparr>] = [1, 1]
   \<and> map rat_value [sample_rating\<lparr>rat_id := 1\<rparr>,
                     sample_rating\<lparr>rat_id := 2, rat_value := - 1,
                       rat_ip_address := ''5.6.7.8'', rat_time_create := 5\<rparr>] = [1, - 1]
   \<and> get_sum_rating
        (sample_article\<lparr>art_id := Some 1\<rparr>, Some [sample_rating\<lparr>rat_id := 1\<rparr>])
        (empty_db\<lparr>articles := [sample_article\<lparr>art_id := Some 1\<rparr>],
                  ratings := [sample_rating\<lparr>rat_id := 1\<rparr>,
                              sample_rating\<lparr>rat_id := 2, rat_value := - 1,
                                rat_ip_address := ''5.6.7.8'', rat_time_create := 5\<rparr>]\<rparr>)
     = Inr 1"
  by (simp add: all_instances_def prefetch_ratings_def ArticleManager_all_def get_queryset_def
        ratings_all_def order_by_def Rating_create_def get_prep_value_def get_sum_rating_def
        sample_article_def sample_rating_def empty_db_def next_id_def Let_def)

text \<open>
  C5, as amended. For an article with a key, \<open>get_sum_rating\<close> returns the arithmetic
  sum of the values of the ratings of that article: on an instance without prefetched
  ratings, of the ratings stored at the call (1 when their values are +1, +1, -1, and 0
  when there are none; after a rating for the article has been created, the sum has
  moved by its value); on an instance with ratings prefetched, as every instance that
  \<open>all()\<close> and \<open>detail()\<close> return has them, of the ratings stored when it was fetched,
  whatever has been stored since.
\<close>

theorem get_sum_rating_sums_values:
  assumes "art_id a = Some k"
  shows "get_sum_rating (a, None) d
           = Inr (sum_list (map rat_value (filter (\<lambda>r. rat_article r = k) (ratings d))))
         \<and> (map rat_value (filter (\<lambda>r. rat_article r = k) (ratings d)) = [1, 1, - 1]
              \<longrightarrow> get_sum_rating (a, None) d = Inr 1)
         \<and> (filter (\<lambda>r. rat_article r = k) (ratings d) = []
              \<longrightarrow> get_sum_rating (a, None) d = Inr 0)
         \<and> (rat_article r = k \<and> Rating_create clean users now r d = (Inr r', d')
              \<longrightarrow> get_sum_rating (a, None) d'
                    = Inr (sum_list (map rat_value (filter (\<lambda>r. rat_article r = k) (ratings d)))
                           + rat_value r)
                  \<and> get_sum_rating (prefetch_ratings d a) d'
                    = Inr (sum_list (map rat_value (filter (\<lambda>r. rat_article r = k) (ratings d)))))
         \<and> get_sum_rating (a, Some rs) d = Inr (sum_list (map rat_value rs))
         \<and> get_sum_rating (prefetch_ratings d0 a) d
           = Inr (sum_list (map rat_value (filter (\<lambda>r. rat_article r = k) (ratings d0))))
         \<and> (\<forall>i \<in> set (all_instances d0) \<union> set (detail_instances d0).
               get_sum_rating i d = get_sum_rating (fst i, None) d0)"
proof (intro conjI impI ballI)
  note q = get_sum_rating_query[OF assms]
  show "get_sum_rating (a, None) d
          = Inr (sum_list (map rat_value (filter (\<lambda>r. rat_article r = k) (ratings d))))"
    by (rule q)
  show "get_sum_rating (a, None) d = Inr 1"
    if "map rat_value (filter (\<lambda>r. rat_article r = k) (ratings d)) = [1, 1, - 1]"
    using that by (simp add: q)
  show "get_sum_rating (a, None) d = Inr 0" if "filter (\<lambda>r. rat_article r = k) (ratings d) = []"
    using that by (simp add: q)
  show "get_sum_rating (a, None) d'
          = Inr (sum_list (map rat_value (filter (\<lambda>r. rat_article r = k) (ratings d)))
                 + rat_value r)"
    if "rat_article r = k \<and> Rating_create clean users now r d = (Inr r', d')"
    using that by (auto simp: q Rating_create_def Let_def split: if_splits)
  show "get_sum_rating (prefetch_ratings d a) d'
          = Inr (sum_list (map rat_value (filter (\<lambda>r. rat_article r = k) (ratings d))))"
    by (simp add: get_sum_rating_prefetched q)
  show "get_sum_rating (a, Some rs) d = Inr (sum_list (map rat_value rs))"
    using assms by (simp add: get_sum_rating_def foldl_plus_sum)
  show "get_sum_rating (prefetch_ratings d0 a) d
          = Inr (sum_list (map rat_value (filter (\<lambda>r. rat_article r = k) (ratings d0))))"
    by (simp add: get_sum_rating_prefetched q)
  show "get_sum_rating i d = get_sum_rating (fst i, None) d0"
    if "i \<in> set (all_instances d0) \<union> set (detail_instances d0)" for i
  proof -
    from that obtain b where i: "i = prefetch_ratings d0 b"
      by (auto simp: all_instances_def detail_instances_def)
    have "fst (prefetch_ratings d0 b) = b" by (simp add: prefetch_ratings_def)
    with i show ?thesis by (simp add: get_sum_rating_prefetched)
  qed
qed

theorem get_sum_rating_sums_values_witness:
  "art_id (sample_article\<lparr>art_id := Some 1\<rparr>) = Some 1
   \<and> get_sum_rating (sample_article\<lparr>art_id := Some 1\<rparr>, None)
        (empty_db\<lparr>articles := [sample_article\<lparr>art_id := Some 1\<rparr>,
                        sample_article\<lparr>art_id := Some 2, art_slug := ''other''\<rparr>],
           ratings :=
           [sample_rating\<lparr>rat_id := 1, rat_ip_address := ''1.1.1.1''\<rparr>,
            sample_rating\<lparr>rat_id := 2, rat_ip_address := ''2.2.2.2'', rat_time_create := 4\<rparr>,
            sample_rating\<lparr>rat_id := 3, rat_article := 2, rat_value := - 1\<rparr>,
            sample_rating\<lparr>rat_id := 4, rat_ip_address := ''3.3.3.3'', rat_value := - 1,
                           rat_time_create := 2\<rparr>]\<rparr>)
      = Inr 1
   \<and> get_sum_rating (sample_article\<lparr>art_id := Some 1\<rparr>, None) empty_db = Inr 0
   \<and> prefetch_ratings (empty_db\<lparr>articles := [sample_article\<lparr>art_id := Some 1\<rparr>],
                                  ratings := [sample_rating\<lparr>rat_id := 1\<rparr>]\<rparr>)
        (sample_article\<lparr>art_id := Some 1\<rparr>)
       \<in> set (all_instances (empty_db\<lparr>articles := [sample_article\<lparr>art_id := Some 1\<rparr>],
                                       ratings := [sample_rating\<lparr>rat_id := 1\<rparr>]\<rparr>))
   \<and> Rating_create sample_clean_ipv6 [] 5
        (sample_rating\<lparr>rat_value := - 1, rat_ip_address := ''5.6.7.8''\<rparr>)
        (empty_db\<lparr>articles := [sample_article\<lparr>art_id := Some 1\<rparr>],
                  ratings := [sample_rating\<lparr>rat_id := 1\<rparr>]\<rparr>)
     = (Inr (sample_rating\<lparr>rat_id := 2, rat_value := - 1, rat_ip_address := ''5.6.7.8'',
                            rat_time_create := 5\<rparr>),
        empty_db\<lparr>articles := [sample_article\<lparr>art_id := Some 1\<rparr>],
                 ratings := [sample_rating\<lparr>rat_id := 1\<rparr>,
                             sample_rating\<lparr>rat_id := 2, rat_value := - 1,
                               rat_ip_address := ''5.6.7.8'', rat_time_create := 5\<rparr>]\<rparr>)
   \<and> get_sum_rating (sample_article\<lparr>art_id := Some 1\<rparr>, None)
        (empty_db\<lparr>articles := [sample_article\<lparr>art_id := Some 1\<rparr>],
                  ratings := [sample_rating\<lparr>rat_id := 1\<rparr>,
                              sample_rating\<lparr>rat_id := 2, rat_value := - 1,
                                rat_ip_address := ''5.6.7.8'', rat_time_create := 5\<rparr>]\<rparr>)
     = Inr 0
   \<and> get_sum_rating
        (prefetch_ratings (empty_db\<lparr>articles := [sample_article\<lparr>art_id := Some 1\<rparr>],
                                    ratings := [sample_rating\<lparr>rat_id := 1\<rparr>]\<rparr>)
           (sample_article\<lparr>art_id := Some 1\<rparr>))
        (empty_db\<lparr>articles := [sample_article\<lparr>art_id := Some 1\<rparr>],
                  ratings := [sample_rating\<lparr>rat_id := 1\<rparr>,
                              sample_rating\<lparr>rat_id := 2, rat_value := - 1,
                                rat_ip_address := ''5.6.7.8'', rat_time_create := 5\<rparr>]\<rparr>)
     = Inr 1"
  using get_sum_rating_sums_values
          [where a = "sample_article\<lparr>art_id := Some 1\<rparr>" and k = 1
             and d = "empty_db\<lparr>articles := [sample_article\<lparr>art_id := Some 1\<rparr>,
                        sample_article\<lparr>art_id := Some 2, art_slug := ''other''\<rparr>],
           ratings :=
           [sample_rating\<lparr>rat_id := 1, rat_ip_address := ''1.1.1.1''\<rparr>,
            sample_rating\<lparr>rat_id := 2, rat_ip_address := ''2.2.2.2'', rat_time_create := 4\<rparr>,
            sample_rating\<lparr>rat_id := 3, rat_article := 2, rat_value := - 1\<rparr>,
            sample_rating\<lparr>rat_id := 4, rat_ip_address := ''3.3.3.3'', rat_value := - 1,
                           rat_time_create := 2\<rparr>]\<rparr>"]
        get_sum_rating_sums_values
          [where a = "sample_article\<lparr>art_id := Some 1\<rparr>" and k = 1 and d = empty_db]
        get_sum_rating_sums_values
          [where a = "sample_article\<lparr>art_id := Some 1\<rparr>" and k = 1
             and d = "empty_db\<lparr>articles := [sample_article\<lparr>art_id := Some 1\<rparr>],
                                ratings := [sample_rating\<lparr>rat_id := 1\<rparr>]\<rparr>"
             and d0 = "empty_db\<lparr>articles := [sample_article\<lparr>art_id := Some 1\<rparr>],
                                 ratings := [sample_rating\<lparr>rat_id := 1\<rparr>]\<rparr>"
             and clean = sample_clean_ipv6 and users = "[]" and now = 5
             and r = "sample_rating\<lparr>rat_value := - 1, rat_ip_address := ''5.6.7.8''\<rparr>"
             and r' = "sample_rating\<lparr>rat_id := 2, rat_value := - 1,
                         rat_ip_address := ''5.6.7.8'', rat_time_create := 5\<rparr>"
             and d' = "empty_db\<lparr>articles := [sample_article\<lparr>art_id := Some 1\<rparr>],
                 ratings := [sample_rating\<lparr>rat_id := 1\<rparr>,
                             sample_rating\<lparr>rat_id := 2, rat_value := - 1,
                               rat_ip_address := ''5.6.7.8'', rat_time_create := 5\<rparr>]\<rparr>"]
  by (simp add: all_instances_def prefetch_ratings_def ArticleManager_all_def get_queryset_def
        ratings_all_def order_by_def Rating_create_def get_prep_value_def
        sample_article_def sample_rating_def empty_db_def next_id_def Let_def)

subsection \<open>The slug after save\<close>




text \<open>
  C9. The claim: save leaves a slug that is set unchanged, and stores every other field
  as it was given. The first half holds. The second does not hold of time_update, which
  is auto_now: here an article given with time_update 3 is saved at time 7 and is stored
  with time_update 7.
\<close>

theorem save_overwrites_time_update:
  "art_slug (sample_article\<lparr>art_id := Some 1, art_time_update := 3\<rparr>) \<noteq> []
   \<and> Article_save no_slugify 7 (sample_article\<lparr>art_id := Some 1, art_time_update := 3\<rparr>)
        (empty_db\<lparr>categories := [sample_category],
                  articles := [sample_article\<lparr>art_id := Some 1, art_time_update := 3\<rparr>]\<rparr>)
     = (Inr (sample_article\<lparr>art_id := Some 1, art_time_update := 7\<rparr>),
        empty_db\<lparr>categories := [sample_category],
                 articles := [sample_article\<lparr>art_id := Some 1, art_time_update := 7\<rparr>]\<rparr>)
   \<and> art_time_update (sample_article\<lparr>art_id := Some 1, art_time_update := 7\<rparr>)
       \<noteq> art_time_update (sample_article\<lparr>art_id := Some 1, art_time_update := 3\<rparr>)"
  by (simp add: Article_save_def Model_save_def sample_article_def
          sample_category_def empty_db_def Let_def)

text \<open>
  C9, as amended. When the slug is set, save stores the article with that slug and with
  every field as given, except the fields the framework manages: time_update is the time
  of the save; on an insert the key is assigned and time_create is the time of the save;
  on an update the key and time_create stay as given. The slug helper plays no part.
\<close>

theorem save_keeps_slug_and_fields:
  assumes "art_slug a \<noteq> []" and "Article_save usl now a d = (Inr a', d')"
  shows "art_slug a' = art_slug a
         \<and> a' \<in> set (articles d')
         \<and> a' = a\<lparr>art_id := art_id a', art_time_create := art_time_create a',
                   art_time_update := now\<rparr>
         \<and> ((\<exists>k. art_id a = Some k \<and> Some k \<in> art_id ` set (articles d))
              \<longrightarrow> art_id a' = art_id a \<and> art_time_create a' = art_time_create a)
         \<and> (\<not> (\<exists>k. art_id a = Some k \<and> Some k \<in> art_id ` set (articles d))
              \<longrightarrow> art_time_create a' = now)"
proof -
  have ms: "Model_save now a d = (Inr a', d')"
    unfolding Article_save_set[OF assms(1), of usl now d, symmetric] by (rule assms(2))
  note r = Model_save_result[OF ms]
  from r(1) r(2) r(4) r(5) r(6) show ?thesis by (intro conjI)
qed

theorem save_keeps_slug_and_fields_witness:
  "art_slug (sample_article\<lparr>art_id := Some 1, art_title := ''Renamed''\<rparr>) \<noteq> []
   \<and> Article_save no_slugify 9 (sample_article\<lparr>art_id := Some 1, art_title := ''Renamed''\<rparr>)
        (empty_db\<lparr>categories := [sample_category],
                  articles := [sample_article\<lparr>art_id := Some 1\<rparr>]\<rparr>)
     = (Inr (sample_article\<lparr>art_id := Some 1, art_title := ''Renamed'', art_time_update := 9\<rparr>),
        empty_db\<lparr>categories := [sample_category],
                 articles := [sample_article\<lparr>art_id := Some 1, art_title := ''Renamed'',
                                art_time_update := 9\<rparr>]\<rparr>)
   \<and> art_slug (sample_article\<lparr>art_id := Some 1, art_title := ''Renamed'', art_time_update := 9\<rparr>)
       = art_slug (sample_article\<lparr>art_id := Some 1, art_title := ''Renamed''\<rparr>)"
proof -
  let ?a = "sample_article\<lparr>art_id := Some 1, art_title := ''Renamed''\<rparr>"
  let ?d = "empty_db\<lparr>categories := [sample_category],
                  articles := [sample_article\<lparr>art_id := Some 1\<rparr>]\<rparr>"
  let ?a' = "sample_article\<lparr>art_id := Some 1, art_title := ''Renamed'', art_time_update := 9\<rparr>"
  let ?d' = "empty_db\<lparr>categories := [sample_category], articles := [?a']\<rparr>"
  have h1: "art_slug ?a \<noteq> []" by (simp add: sample_article_def)
  have h2: "Article_save no_slugify 9 ?a ?d = (Inr ?a', ?d')"
    by (simp add: Article_save_def Model_save_def sample_article_def
          sample_category_def empty_db_def Let_def)
  from save_keeps_slug_and_fields[OF h1 h2] have "art_slug ?a' = art_slug ?a" by blast
  with h1 h2 show ?thesis by blast
qed

subsection \<open>The default status\<close>

text \<open>
  C10. An Article constructed without a status has status 'published': once its save
  completes it is in the results of both manager policies. A Comment constructed without
  a status has status 'published', and keeps it when it is created in the database.
\<close>

theorem status_defaults_to_published:
  "(kw_status kw = None \<and> Article_save usl now (Article_init kw) d = (Inr a', d')
      \<longrightarrow> art_status a' = ''published''
          \<and> a' \<in> set (ArticleManager_all d') \<and> a' \<in> set (ArticleManager_detail d'))
   \<and> (ckw_status ckw = None \<longrightarrow> com_status (Comment_init ckw) = ''published'')
   \<and> (ckw_status ckw = None \<and> Comment_create now (Comment_init ckw) e = (Inr c', e')
      \<longrightarrow> com_status c' = ''published'' \<and> c' \<in> set (comments e'))"
proof (intro conjI impI)
  assume h: "kw_status kw = None \<and> Article_save usl now (Article_init kw) d = (Inr a', d')"
  then have sv: "Article_save usl now (Article_init kw) d = (Inr a', d')" by simp
  from h have "art_status (Article_init kw) = ''published''" by (simp add: Article_init_def)
  with Article_save_status[OF sv] have p: "art_status a' = ''published''" "a' \<in> set (articles d')"
    by simp_all
  show "art_status a' = ''published''" by (rule p(1))
  show "a' \<in> set (ArticleManager_all d')"
    using p by (simp add: ArticleManager_all_def get_queryset_def set_order_by)
  show "a' \<in> set (ArticleManager_detail d')"
    using p by (simp add: ArticleManager_detail_def get_queryset_def set_order_by)
next
  assume "ckw_status ckw = None"
  then show "com_status (Comment_init ckw) = ''published''" by (simp add: Comment_init_def)
next
  assume h: "ckw_status ckw = None \<and> Comment_create now (Comment_init ckw) e = (Inr c', e')"
  then have cr: "Comment_create now (Comment_init ckw) e = (Inr c', e')" by simp
  from h have "com_status (Comment_init ckw) = ''published''" by (simp add: Comment_init_def)
  with Comment_create_status(1)[OF cr] show "com_status c' = ''published''" by simp
  show "c' \<in> set (comments e')" by (rule Comment_create_status(2)[OF cr])
qed

theorem status_defaults_to_published_witness:
  "kw_status sample_kwargs = None
   \<and> Article_save no_slugify 5 (Article_init sample_kwargs)
        (empty_db\<lparr>categories := [sample_category]\<rparr>)
     = (Inr (sample_article\<lparr>art_id := Some 1, art_time_create := 5, art_time_update := 5\<rparr>),
        empty_db\<lparr>categories := [sample_category],
                 articles := [sample_article\<lparr>art_id := Some 1, art_time_create := 5,
                                art_time_update := 5\<rparr>]\<rparr>)
   \<and> sample_article\<lparr>art_id := Some 1, art_time_create := 5, art_time_update := 5\<rparr>
       \<in> set (ArticleManager_all
                (empty_db\<lparr>categories := [sample_category],
                          articles := [sample_article\<lparr>art_id := Some 1, art_time_create := 5,
                                         art_time_update := 5\<rparr>]\<rparr>))
   \<and> ckw_status sample_comment_kwargs = None
   \<and> com_status (Comment_init sample_comment_kwargs) = ''published''
   \<and> Comment_create 6 (Comment_init sample_comment_kwargs)
        (empty_db\<lparr>articles := [sample_article\<lparr>art_id := Some 1\<rparr>]\<rparr>)
     = (Inr (Comment_init sample_comment_kwargs
               \<lparr>com_id := 1, com_time_create := 6, com_time_update := 6, com_tree_id := 1,
                com_lft := 1, com_rght := 2\<rparr>),
        empty_db\<lparr>articles := [sample_article\<lparr>art_id := Some 1\<rparr>],
                 comments := [Comment_init sample_comment_kwargs
               \<lparr>com_id := 1, com_time_create := 6, com_time_update := 6, com_tree_id := 1,
                com_lft := 1, com_rght := 2\<rparr>]\<rparr>)
   \<and> com_status (Comment_init sample_comment_kwargs
               \<lparr>com_id := 1, com_time_create := 6, com_time_update := 6, com_tree_id := 1,
                com_lft := 1, com_rght := 2\<rparr>) = ''published''"
proof -
  let ?d = "empty_db\<lparr>categories := [sample_category]\<rparr>"
  let ?a' = "sample_article\<lparr>art_id := Some 1, art_time_create := 5, art_time_update := 5\<rparr>"
  let ?d' = "empty_db\<lparr>categories := [sample_category], articles := [?a']\<rparr>"
  let ?e = "empty_db\<lparr>articles := [sample_article\<lparr>art_id := Some 1\<rparr>]\<rparr>"
  let ?c' = "Comment_init sample_comment_kwargs
               \<lparr>com_id := 1, com_time_create := 6, com_time_update := 6, com_tree_id := 1,
                com_lft := 1, com_rght := 2\<rparr>"
  let ?e' = "empty_db\<lparr>articles := [sample_article\<lparr>art_id := Some 1\<rparr>], comments := [?c']\<rparr>"
  have k: "kw_status sample_kwargs = None" by (simp add: sample_kwargs_def)
  have sv: "Article_save no_slugify 5 (Article_init sample_kwargs) ?d = (Inr ?a', ?d')"
    by (simp add: Article_save_def Model_save_def Article_init_def sample_kwargs_def
          sample_article_def sample_category_def empty_db_def next_id_def Let_def)
  have ck: "ckw_status sample_comment_kwargs = None" by (simp add: sample_comment_kwargs_def)
  have cr: "Comment_create 6 (Comment_init sample_comment_kwargs) ?e = (Inr ?c', ?e')"
    by (simp add: Comment_create_def Comment_init_def sample_comment_kwargs_def
          get_ordered_insertion_target_def mptt_order_insertion_by_def class_option_def
          Comment_class_def insert_node_def sample_article_def empty_db_def next_id_def Let_def)
  note t = status_defaults_to_published[where kw = sample_kwargs and usl = no_slugify
             and now = 5 and d = ?d and a' = ?a' and d' = ?d' and ckw = sample_comment_kwargs]
  note u = status_defaults_to_published[where ckw = sample_comment_kwargs and now = 6
             and e = ?e and c' = ?c' and e' = ?e']
  from t k sv have 1: "?a' \<in> set (ArticleManager_all ?d')" by blast
  from t ck have 2: "com_status (Comment_init sample_comment_kwargs) = ''published''" by blast
  from u ck cr have 3: "com_status ?c' = ''published''" by blast
  from k sv 1 ck 2 cr 3 show ?thesis by blast
qed

subsection \<open>Deleting a category\<close>











subsection \<open>Deleting an article\<close>








subsection \<open>The order of sibling comments\<close>

text \<open>
  C8. The claim: of two sibling comments, the one created later stands before the one
  created earlier. Comment declares its insertion order in a nested class named MTTMeta;
  the tree library reads MPTTMeta (as Category declares it), so Comment has no insertion
  order and a new reply is placed as the last child of its parent. Here a comment is
  created at time 10 and two replies to it at times 20 and 30; the default query set of
  the tree manager lists the reply of time 20 before the reply of time 30.
\<close>

theorem sibling_comments_oldest_first:
  "mptt_order_insertion_by Comment_class = []
   \<and> mptt_order_insertion_by Category_class = [Asc ''title'']
   \<and> (let d0 = empty_db\<lparr>articles := [sample_article\<lparr>art_id := Some 1\<rparr>]\<rparr>;
          d1 = snd (Comment_create 10 sample_comment d0);
          d2 = snd (Comment_create 20 (sample_comment\<lparr>com_parent := Some 1\<rparr>) d1);
          d3 = snd (Comment_create 30 (sample_comment\<lparr>com_parent := Some 1\<rparr>) d2)
      in map (\<lambda>c. (com_id c, com_parent c, com_time_create c)) (TreeManager_get_queryset d3))
     = [(1, None, 10), (2, Some 1, 20), (3, Some 1, 30)]"
  by (simp add: mptt_order_insertion_by_def class_option_def Comment_class_def Category_class_def
        Comment_create_def get_ordered_insertion_target_def insert_node_def create_space_def
        TreeManager_get_queryset_def order_by_def comment_col_def
        sample_comment_def Comment_init_def sample_article_def empty_db_def next_id_def Let_def)

end
